theory Spec2Isabelle
  imports Complex_Main
begin

section \<open>Numbers and errors\<close>

text \<open>
  The computation core works on Python and numpy floating-point numbers. A number
  is modelled as an exact real; rounding of binary floating point is not part of
  the model. The one non-number that the code tests for explicitly
  (\<^verbatim>\<open>pd.isna\<close>, \<^verbatim>\<open>fillna\<close>, the \<^verbatim>\<open>skipna\<close> default of the aggregates) is
  NaN, which pandas also uses for a missing field.
\<close>

datatype pyfloat = Fin real | NaN

datatype error =
    KeyError string
  | ValueError
  | NonFiniteFit

section \<open>Grade calculator (enhanced_calculations.py)\<close>


text \<open>
  \<^verbatim>\<open>get_grade_letter\<close>: the first test sends NaN and negative numbers to F, the
  rest is the ladder of thresholds, read top down.
\<close>

fun get_grade_letter :: "pyfloat \<Rightarrow> string" where
  "get_grade_letter NaN = ''F''"
| "get_grade_letter (Fin percentage) =
     (if percentage < 0 then ''F''
      else if percentage \<ge> 90 then ''A+''
      else if percentage \<ge> 85 then ''A''
      else if percentage \<ge> 80 then ''A-''
      else if percentage \<ge> 75 then ''B+''
      else if percentage \<ge> 70 then ''B''
      else if percentage \<ge> 65 then ''B-''
      else if percentage \<ge> 60 then ''C+''
      else if percentage \<ge> 55 then ''C''
      else if percentage \<ge> 50 then ''C-''
      else ''F'')"

text \<open>
  The dictionary \<^verbatim>\<open>grade_points\<close> of \<^verbatim>\<open>calculate_weighted_gpa\<close>, read as the
  code reads it: \<^verbatim>\<open>grade_points.get(letter, 0.0)\<close>.
\<close>

definition grade_points :: "string \<rightharpoonup> real" where
  "grade_points = map_of
     [(''A+'', 4.0), (''A'', 4.0), (''A-'', 3.7),
      (''B+'', 3.3), (''B'', 3.0), (''B-'', 2.7),
      (''C+'', 2.3), (''C'', 2.0), (''C-'', 1.7),
      (''F'', 0.0), (''N/A'', 0.0)]"

definition grade_points_get :: "string \<Rightarrow> real" where
  "grade_points_get letter = (case grade_points letter of Some p \<Rightarrow> p | None \<Rightarrow> 0.0)"

section \<open>Data frames\<close>

text \<open>
  A pandas DataFrame is a list of column names and a list of rows. A row is a record
  with one field for each column the core reads; a field is meaningful only when its
  column is listed in \<open>columns\<close>, and reading a column that is not listed raises
  \<^verbatim>\<open>KeyError\<close>. \<^verbatim>\<open>df.empty\<close> holds when either axis has length 0.
  A text field is \<open>None\<close> where the frame holds NaN (the field was missing).
\<close>

record 'r frame =
  columns :: "string list"
  rows :: "'r list"

definition df_empty :: "'r frame \<Rightarrow> bool" where
  "df_empty df = (rows df = [] \<or> columns df = [])"

text \<open>
  A date field as the date parsers see it: \<open>Day d\<close> is the text \<^verbatim>\<open>YYYY-MM-DD\<close> of
  the day numbered \<open>d\<close> (days since 1970-01-01), which \<^verbatim>\<open>datetime.strptime\<close> with
  \<^verbatim>\<open>"%Y-%m-%d"\<close> and \<^verbatim>\<open>pd.to_datetime\<close> both read as midnight of that day;
  \<open>Unparseable\<close> is a text that neither reads; \<open>Missing\<close> is None or NaN, which
  \<^verbatim>\<open>pd.to_datetime\<close> turns into NaT and on which \<^verbatim>\<open>strptime\<close> raises.
\<close>

datatype date_value = Day int | Unparseable | Missing

record coded_row =
  course_code :: "string option"

record carry_row = coded_row +
  earned :: pyfloat
  max_possible :: pyfloat
  percentage :: pyfloat
  final_contribution :: pyfloat
  date_added :: date_value

record assignment_row = coded_row +
  title :: "string option"
  due_date :: date_value
  status :: "string option"










section \<open>Carry percentage, completion rate, weighted GPA (enhanced_calculations.py)\<close>







section \<open>Dates and the clock\<close>

text \<open>
  The clock (\<^verbatim>\<open>datetime.now()\<close>, \<^verbatim>\<open>pd.Timestamp.now()\<close>) is an input of
  the functions that read it: \<open>now\<close> is the reading in microseconds since
  1970-01-01. The \<^verbatim>\<open>days\<close> of a time difference is its floor in whole days.
\<close>

definition day_us :: int where
  "day_us = 86400000000"

definition days_between :: "int \<Rightarrow> int \<Rightarrow> int" where
  "days_between day now = (day * day_us - now) div day_us"

text \<open>
  \<^verbatim>\<open>calculate_days_until_due\<close>: the bare \<^verbatim>\<open>except\<close> turns every failure of
  \<^verbatim>\<open>strptime\<close> into the result 0.
\<close>

fun calculate_days_until_due :: "int \<Rightarrow> date_value \<Rightarrow> int" where
  "calculate_days_until_due now (Day d) = days_between d now"
| "calculate_days_until_due now Unparseable = 0"
| "calculate_days_until_due now Missing = 0"

text \<open>
  \<^verbatim>\<open>pd.to_datetime\<close> over a column, with the default \<^verbatim>\<open>errors='raise'\<close>: one
  text that does not parse raises for the whole column; a missing value becomes NaT.
\<close>

fun day_of :: "date_value \<Rightarrow> int option" where
  "day_of (Day d) = Some d"
| "day_of _ = None"

definition to_datetime :: "date_value list \<Rightarrow> error + int option list" where
  "to_datetime ds = (if Unparseable \<in> set ds then Inl ValueError else Inr (map day_of ds))"

text \<open>
  The period \<^verbatim>\<open>'W'\<close> is the week from Monday to Sunday; day 0 is a Thursday, so
  the Monday of its week is day \<open>-3\<close>.
\<close>

definition week_of :: "int \<Rightarrow> int" where
  "week_of d = (d + 3) div 7"

text \<open>
  \<^verbatim>\<open>get_weekly_workload\<close>: \<^verbatim>\<open>groupby\<close> drops the rows whose key is NaT and
  orders the groups by key; \<^verbatim>\<open>count\<close> counts the titles that are not missing.
  The result is the list of rows (week, total assignments, pending assignments).
\<close>

definition get_weekly_workload :: "assignment_row frame \<Rightarrow> error + (int \<times> nat \<times> nat) list" where
  "get_weekly_workload assignments_df =
     (if df_empty assignments_df then Inr []
      else if ''due_date'' \<notin> set (columns assignments_df) then Inl (KeyError ''due_date'')
      else case to_datetime (map due_date (rows assignments_df)) of
        Inl e \<Rightarrow> Inl e
      | Inr dates \<Rightarrow>
          if ''title'' \<notin> set (columns assignments_df) then Inl (KeyError ''title'')
          else if ''status'' \<notin> set (columns assignments_df) then Inl (KeyError ''status'')
          else
            let keyed = zip (map (map_option week_of) dates) (rows assignments_df);
                weeks = sort (remdups (List.map_filter fst keyed))
            in Inr (map (\<lambda>w.
                    let grp = map snd (filter (\<lambda>kr. fst kr = Some w) keyed)
                    in (w, length (filter (\<lambda>r. title r \<noteq> None) grp),
                           length (filter (\<lambda>r. status r = Some ''pending'') grp))) weeks))"

text \<open>
  The loop of \<^verbatim>\<open>analytics_tab\<close> (enhanced_analytics.py) that counts overdue and
  upcoming pending assignments. It runs when the frame is not empty; the date is read
  inside \<^verbatim>\<open>try\<close>, and \<^verbatim>\<open>except: pass\<close> leaves both counters as they are.
\<close>

definition deadline_step :: "int \<Rightarrow> assignment_row \<Rightarrow> nat \<times> nat \<Rightarrow> nat \<times> nat" where
  "deadline_step today assignment acc =
     (case acc of (overdue_count, upcoming_count) \<Rightarrow>
        if status assignment = Some ''pending'' then
          (case due_date assignment of
             Day d \<Rightarrow>
               let days_diff = d - today
               in if days_diff < 0 then (overdue_count + 1, upcoming_count)
                  else if days_diff \<le> 7 then (overdue_count, upcoming_count + 1)
                  else (overdue_count, upcoming_count)
           | _ \<Rightarrow> (overdue_count, upcoming_count))
        else (overdue_count, upcoming_count))"

definition analytics_tab_deadline_counts :: "int \<Rightarrow> assignment_row frame \<Rightarrow> error + nat \<times> nat" where
  "analytics_tab_deadline_counts now assignments_df =
     (if df_empty assignments_df then Inr (0, 0)
      else if ''status'' \<notin> set (columns assignments_df) then Inl (KeyError ''status'')
      else
        let today = now div day_us
        in Inr (fold (\<lambda>assignment acc.
                  if ''due_date'' \<in> set (columns assignments_df)
                  then deadline_step today assignment acc else acc)
                (rows assignments_df) (0, 0)))"

text \<open>
  \<^verbatim>\<open>sort_values\<close> puts the missing keys last; rows with equal keys keep their
  order.
\<close>

definition sort_values :: "('a \<Rightarrow> int option) \<Rightarrow> 'a list \<Rightarrow> 'a list" where
  "sort_values key xs =
     sort_key (\<lambda>x. the (key x)) (filter (\<lambda>x. key x \<noteq> None) xs) @ filter (\<lambda>x. key x = None) xs"

text \<open>
  \<^verbatim>\<open>calculate_time_to_deadline\<close>: the result is the list of pending rows, each
  with its \<^verbatim>\<open>days_remaining\<close> (NaN, here \<open>None\<close>, for a missing date).
\<close>

definition calculate_time_to_deadline ::
  "int \<Rightarrow> assignment_row frame \<Rightarrow> error + (assignment_row \<times> int option) list" where
  "calculate_time_to_deadline now assignments_df =
     (if df_empty assignments_df then Inr []
      else if ''status'' \<notin> set (columns assignments_df) then Inl (KeyError ''status'')
      else
        let pending_assignments = filter (\<lambda>r. status r = Some ''pending'') (rows assignments_df)
        in if pending_assignments = [] then Inr []
           else if ''due_date'' \<notin> set (columns assignments_df) then Inl (KeyError ''due_date'')
           else case to_datetime (map due_date pending_assignments) of
             Inl e \<Rightarrow> Inl e
           | Inr dates \<Rightarrow>
               Inr (sort_values snd
                      (zip pending_assignments
                         (map (map_option (\<lambda>d. days_between d now)) dates))))"

section \<open>Performance trend (enhanced_calculations.py)\<close>








section \<open>Record store (utils/data_manager.py)\<close>

text \<open>
  The session state holds four lists of dictionaries. A dictionary maps field names
  to values; \<^verbatim>\<open>d.get(k)\<close> gives \<^verbatim>\<open>None\<close> for an absent key, \<^verbatim>\<open>d[k]\<close> raises.
\<close>

datatype pyval = PStr string | PNum real | PNone

type_synonym pydict = "string \<rightharpoonup> pyval"

record store =
  courses :: "pydict list"
  carry_marks :: "pydict list"
  assignments :: "pydict list"
  final_exams :: "pydict list"

definition dict_get :: "pydict \<Rightarrow> string \<Rightarrow> pyval" where
  "dict_get d k = (case d k of None \<Rightarrow> PNone | Some v \<Rightarrow> v)"

definition delete_course :: "int \<Rightarrow> store \<Rightarrow> error + store" where
  "delete_course index s =
     (if 0 \<le> index \<and> index < int (length (courses s)) then
        (case (courses s ! nat index) ''code'' of
           None \<Rightarrow> Inl (KeyError ''code'')
         | Some code_value \<Rightarrow>
             Inr (s\<lparr>carry_marks := filter (\<lambda>cm. dict_get cm ''course_code'' \<noteq> code_value) (carry_marks s),
                     assignments := filter (\<lambda>a. dict_get a ''course_code'' \<noteq> code_value) (assignments s),
                     final_exams := filter (\<lambda>fe. dict_get fe ''course_code'' \<noteq> code_value) (final_exams s),
                     courses := take (nat index) (courses s) @ drop (Suc (nat index)) (courses s)\<rparr>))
      else Inr s)"

text \<open>A record references a course code when its \<^verbatim>\<open>course_code\<close> field is that code.\<close>

definition references :: "pyval \<Rightarrow> pydict \<Rightarrow> bool" where
  "references code_value d = (dict_get d ''course_code'' = code_value)"


section \<open>Properties\<close>

lemma grade_points_get_letters:
  "grade_points_get ''A+'' = 4" "grade_points_get ''A'' = 4" "grade_points_get ''A-'' = 3.7"
  "grade_points_get ''B+'' = 3.3" "grade_points_get ''B'' = 3" "grade_points_get ''B-'' = 2.7"
  "grade_points_get ''C+'' = 2.3" "grade_points_get ''C'' = 2" "grade_points_get ''C-'' = 1.7"
  "grade_points_get ''F'' = 0" "grade_points_get ''N/A'' = 0"
  by (simp_all add: grade_points_get_def grade_points_def)













lemma days_between_split: "days_between d now = d + (- now) div day_us"
proof -
  have "d * day_us - now = (- now) + d * day_us" by simp
  then show ?thesis
    unfolding days_between_def by (simp add: day_us_def)
qed

subsection \<open>The least-squares line\<close>











subsection \<open>The performance trend\<close>








subsection \<open>The claims\<close>



text \<open>
  C4. \<^verbatim>\<open>get_grade_letter\<close> is the descending ladder: each letter is returned exactly
  on its band of percentages, F below 50 (negative numbers included) and for NaN; the
  four sample values of the specification come out as A, A+, F and F.
\<close>

theorem C4_grade_ladder:
  "(get_grade_letter (Fin p) = ''A+'' \<longleftrightarrow> 90 \<le> p)
   \<and> (get_grade_letter (Fin p) = ''A'' \<longleftrightarrow> 85 \<le> p \<and> p < 90)
   \<and> (get_grade_letter (Fin p) = ''A-'' \<longleftrightarrow> 80 \<le> p \<and> p < 85)
   \<and> (get_grade_letter (Fin p) = ''B+'' \<longleftrightarrow> 75 \<le> p \<and> p < 80)
   \<and> (get_grade_letter (Fin p) = ''B'' \<longleftrightarrow> 70 \<le> p \<and> p < 75)
   \<and> (get_grade_letter (Fin p) = ''B-'' \<longleftrightarrow> 65 \<le> p \<and> p < 70)
   \<and> (get_grade_letter (Fin p) = ''C+'' \<longleftrightarrow> 60 \<le> p \<and> p < 65)
   \<and> (get_grade_letter (Fin p) = ''C'' \<longleftrightarrow> 55 \<le> p \<and> p < 60)
   \<and> (get_grade_letter (Fin p) = ''C-'' \<longleftrightarrow> 50 \<le> p \<and> p < 55)
   \<and> (get_grade_letter (Fin p) = ''F'' \<longleftrightarrow> p < 50)
   \<and> get_grade_letter NaN = ''F''
   \<and> get_grade_letter (Fin 89.999) = ''A''
   \<and> get_grade_letter (Fin 90.0) = ''A+''
   \<and> get_grade_letter (Fin (- 5)) = ''F''"
  by simp

text \<open>
  C10. On numbers, the letter grade is monotone for the order of the grade points
  that \<^verbatim>\<open>calculate_weighted_gpa\<close> assigns: a percentage that is not smaller never
  earns fewer points.
\<close>

theorem C10_grade_points_monotone:
  assumes "p \<le> q"
  shows "grade_points_get (get_grade_letter (Fin p)) \<le> grade_points_get (get_grade_letter (Fin q))"
  using assms by (simp add: grade_points_get_letters)

theorem C10_grade_points_monotone_witness:
  "(72::real) \<le> 86
   \<and> grade_points_get (get_grade_letter (Fin 72)) \<le> grade_points_get (get_grade_letter (Fin 86))
   \<and> grade_points_get (get_grade_letter (Fin 72)) = 3
   \<and> grade_points_get (get_grade_letter (Fin 86)) = 4"
  using C10_grade_points_monotone [of 72 86] by (simp add: grade_points_get_letters)








text \<open>
  C6. A frame of two pending assignments, the second with a due date that does not
  parse: \<^verbatim>\<open>get_weekly_workload\<close> and \<^verbatim>\<open>calculate_time_to_deadline\<close> raise the
  parse error instead of skipping the record, while the counting loop of
  \<^verbatim>\<open>analytics_tab\<close> skips it and \<^verbatim>\<open>calculate_days_until_due\<close> answers 0.
\<close>

theorem C6_unparseable_date_raises:
  "get_weekly_workload
     \<lparr>columns = [''title'', ''course_code'', ''due_date'', ''status''],
      rows = [\<lparr>course_code = Some ''C1'', title = Some ''Essay'', due_date = Day 20000, status = Some ''pending''\<rparr>,
              \<lparr>course_code = Some ''C1'', title = Some ''Quiz'', due_date = Unparseable, status = Some ''pending''\<rparr>]\<rparr>
   = Inl ValueError
   \<and> calculate_time_to_deadline 0
     \<lparr>columns = [''title'', ''course_code'', ''due_date'', ''status''],
      rows = [\<lparr>course_code = Some ''C1'', title = Some ''Essay'', due_date = Day 20000, status = Some ''pending''\<rparr>,
              \<lparr>course_code = Some ''C1'', title = Some ''Quiz'', due_date = Unparseable, status = Some ''pending''\<rparr>]\<rparr>
   = Inl ValueError
   \<and> analytics_tab_deadline_counts (19999 * 86400000000)
     \<lparr>columns = [''title'', ''course_code'', ''due_date'', ''status''],
      rows = [\<lparr>course_code = Some ''C1'', title = Some ''Essay'', due_date = Day 20000, status = Some ''pending''\<rparr>,
              \<lparr>course_code = Some ''C1'', title = Some ''Quiz'', due_date = Unparseable, status = Some ''pending''\<rparr>]\<rparr>
   = Inr (0, 1)
   \<and> calculate_days_until_due 0 Unparseable = 0"
  by (simp add: get_weekly_workload_def calculate_time_to_deadline_def analytics_tab_deadline_counts_def
      df_empty_def to_datetime_def deadline_step_def day_us_def)

text \<open>
  C7, as the claim states it, fails: \<^verbatim>\<open>calculate_days_until_due\<close> reads the clock,
  and two calls on the same due date, one at the start of day 0 and one a day later,
  return 1 and 0.
\<close>

theorem C7_clock_counterexample:
  "calculate_days_until_due 0 (Day 1) = 1 \<and> calculate_days_until_due 86400000000 (Day 1) = 0
   \<and> calculate_days_until_due 0 (Day 1) \<noteq> calculate_days_until_due 86400000000 (Day 1)"
  by (simp add: days_between_def day_us_def)

text \<open>
  C7, amended. Two calls of \<^verbatim>\<open>calculate_days_until_due\<close> or of
  \<^verbatim>\<open>calculate_time_to_deadline\<close> on the same input return the same result whenever
  the two clock readings lie between the same two consecutive midnights (they have the
  same floor of minus the reading over one day), in particular at the same reading.
\<close>

theorem C7_same_day_window:
  assumes "(- now1) div day_us = (- now2) div day_us"
  shows "calculate_days_until_due now1 v = calculate_days_until_due now2 v
     \<and> calculate_time_to_deadline now1 df = calculate_time_to_deadline now2 df"
proof -
  have eq: "days_between d now1 = days_between d now2" for d
    using assms by (simp add: days_between_split)
  have "calculate_days_until_due now1 v = calculate_days_until_due now2 v"
    by (cases v) (simp_all add: eq)
  moreover have "(\<lambda>d. days_between d now1) = (\<lambda>d. days_between d now2)"
    using eq by auto
  then have "calculate_time_to_deadline now1 df = calculate_time_to_deadline now2 df"
    unfolding calculate_time_to_deadline_def by (simp add: Let_def split: sum.split)
  ultimately show ?thesis by simp
qed

theorem C7_same_day_window_witness:
  "(- 1) div day_us = (- 86400000000) div day_us
   \<and> calculate_days_until_due 1 (Day 3) = 2
   \<and> calculate_days_until_due 86400000000 (Day 3) = 2"
  using C7_same_day_window [of 1 86400000000 "Day 3" "\<lparr>columns = [], rows = []\<rparr>"]
  by (simp add: days_between_def day_us_def)

text \<open>
  C8. For a valid index of a course that has a code, \<^verbatim>\<open>delete_course\<close> completes,
  and afterwards no carry mark, no assignment and no final-exam record of the store
  references the code of the deleted course.
\<close>

theorem C8_delete_course_cascade:
  assumes "0 \<le> index" "index < int (length (courses s))"
    and "(courses s ! nat index) ''code'' = Some code_value"
  shows "\<exists>s'. delete_course index s = Inr s'
      \<and> (\<forall>cm\<in>set (carry_marks s'). \<not> references code_value cm)
      \<and> (\<forall>a\<in>set (assignments s'). \<not> references code_value a)
      \<and> (\<forall>fe\<in>set (final_exams s'). \<not> references code_value fe)
      \<and> length (courses s') + 1 = length (courses s)"
  using assms by (auto simp: delete_course_def references_def)

theorem C8_delete_course_cascade_witness:
  "delete_course 1
     \<lparr>courses = [[''code'' \<mapsto> PStr ''A''], [''code'' \<mapsto> PStr ''B'']],
      carry_marks = [[''course_code'' \<mapsto> PStr ''B'', ''earned'' \<mapsto> PNum 5],
                     [''course_code'' \<mapsto> PStr ''A'', ''earned'' \<mapsto> PNum 7]],
      assignments = [[''course_code'' \<mapsto> PStr ''B'']],
      final_exams = [[''course_code'' \<mapsto> PStr ''A''], [''course_code'' \<mapsto> PStr ''B'']]\<rparr>
   = Inr \<lparr>courses = [[''code'' \<mapsto> PStr ''A'']],
      carry_marks = [[''course_code'' \<mapsto> PStr ''A'', ''earned'' \<mapsto> PNum 7]],
      assignments = [],
      final_exams = [[''course_code'' \<mapsto> PStr ''A'']]\<rparr>"
  using C8_delete_course_cascade [of 1 "\<lparr>courses = [[''code'' \<mapsto> PStr ''A''], [''code'' \<mapsto> PStr ''B'']],
      carry_marks = [[''course_code'' \<mapsto> PStr ''B'', ''earned'' \<mapsto> PNum 5],
                     [''course_code'' \<mapsto> PStr ''A'', ''earned'' \<mapsto> PNum 7]],
      assignments = [[''course_code'' \<mapsto> PStr ''B'']],
      final_exams = [[''course_code'' \<mapsto> PStr ''A''], [''course_code'' \<mapsto> PStr ''B'']]\<rparr>" "PStr ''B''"]
  by (simp add: delete_course_def dict_get_def)



end
